theory Spec2Isabelle
  imports Main "HOL-Library.FSet"
begin

section \<open>ClickHouse metadata: type mapping\<close>

text \<open>
  The members of \<^verbatim>\<open>RustAnalyticsEngineColumnType\<close> that
  \<^verbatim>\<open>app/model/metadata/clickhouse.py\<close> refers to: the values of
  \<^verbatim>\<open>CLICKHOUSE_TYPE_MAPPING\<close> and the fallback \<^verbatim>\<open>UNKNOWN\<close>. The member
  \<^verbatim>\<open>CHAR\<close> is written \<open>CHAR'\<close>: \<open>CHAR\<close> is taken by the library's notation
  for the characteristic of a ring.
\<close>

datatype RustAnalyticsEngineColumnType =
    BOOL | TINYINT | INT2 | INT4 | INT8 | FLOAT4 | FLOAT8 | DECIMAL
  | DATE | TIMESTAMP | VARCHAR | CHAR' | UUID | STRING | INET | UNKNOWN

text \<open>
  \<^verbatim>\<open>CLICKHOUSE_TYPE_MAPPING\<close>, the module-level dictionary, entry by entry.
\<close>

definition CLICKHOUSE_TYPE_MAPPING :: "string \<rightharpoonup> RustAnalyticsEngineColumnType" where
  "CLICKHOUSE_TYPE_MAPPING = map_of
     [(''boolean'', BOOL),
      (''int8'', TINYINT),
      (''uint8'', INT2),
      (''int16'', INT2),
      (''uint16'', INT2),
      (''int32'', INT4),
      (''uint32'', INT4),
      (''int64'', INT8),
      (''uint64'', INT8),
      (''float32'', FLOAT4),
      (''float64'', FLOAT8),
      (''decimal'', DECIMAL),
      (''date'', DATE),
      (''datetime'', TIMESTAMP),
      (''string'', VARCHAR),
      (''fixedstring'', CHAR'),
      (''uuid'', UUID),
      (''enum8'', STRING),
      (''enum16'', STRING),
      (''ipv4'', INET),
      (''ipv6'', INET)]"

text \<open>
  \<^verbatim>\<open>str.lower()\<close>. A \<^typ>\<open>string\<close> is a list of bytes, so a Python string is its
  UTF-8 encoding here, and \<open>lower\<close> maps the 26 ASCII capitals to their small letters
  and leaves every other byte alone. Python also lowers capitals outside ASCII; for the
  look-up below this makes no difference: the keys of the table are ASCII and have no
  \<open>k\<close>, and the only character outside ASCII whose lower case is made of ASCII
  characters alone is the Kelvin sign (lower case \<open>k\<close>). A string with a character
  outside ASCII therefore misses the table in Python and in this model alike.
\<close>

definition ascii_uppercase :: string where
  "ascii_uppercase = ''ABCDEFGHIJKLMNOPQRSTUVWXYZ''"

definition ascii_lowercase :: string where
  "ascii_lowercase = ''abcdefghijklmnopqrstuvwxyz''"

definition lower_char :: "char \<Rightarrow> char" where
  "lower_char c =
     (case map_of (zip ascii_uppercase ascii_lowercase) c of Some l \<Rightarrow> l | None \<Rightarrow> c)"

definition lower :: "string \<Rightarrow> string" where
  "lower s = map lower_char s"

text \<open>
  The diagnostic side channel: \<^verbatim>\<open>logger.warning(...)\<close> of loguru emits one event
  with a level and a message. A function that logs returns the events it emitted, in
  order, next to its value.
\<close>

datatype log_level = TRACE | DEBUG | INFO | SUCCESS | WARNING | ERROR | CRITICAL

type_synonym log_event = "log_level \<times> string"

text \<open>
  \<^verbatim>\<open>ClickHouseMetadata._transform_column_type\<close>: lower the type string, look it up
  with \<^verbatim>\<open>UNKNOWN\<close> as the default of \<^verbatim>\<open>dict.get\<close>, warn with the string as it
  was given when the result is \<^verbatim>\<open>UNKNOWN\<close>, return the result.
\<close>

definition transform_column_type :: "string \<Rightarrow> RustAnalyticsEngineColumnType \<times> log_event list" where
  "transform_column_type data_type =
     (let normalized_type = lower data_type;
          mapped_type = (case CLICKHOUSE_TYPE_MAPPING normalized_type of
                           Some t \<Rightarrow> t
                         | None \<Rightarrow> UNKNOWN)
      in (mapped_type,
          if mapped_type = UNKNOWN
          then [(WARNING, ''Unknown ClickHouse data type: '' @ data_type)]
          else []))"

text \<open>
  Letter case, stated without \<open>lower\<close>: \<open>swapcase_char\<close> turns an ASCII capital into
  its small letter and a small letter into its capital; \<open>t\<close> is a case variant of
  \<open>s\<close> when it has the same length and each of its characters is the character of
  \<open>s\<close> at that place or its other case.
\<close>

definition swapcase_char :: "char \<Rightarrow> char" where
  "swapcase_char c =
     (case map_of (zip ascii_uppercase ascii_lowercase) c of
        Some l \<Rightarrow> l
      | None \<Rightarrow> (case map_of (zip ascii_lowercase ascii_uppercase) c of
                   Some u \<Rightarrow> u
                 | None \<Rightarrow> c))"

definition case_variant :: "string \<Rightarrow> string \<Rightarrow> bool" where
  "case_variant s t = list_all2 (\<lambda>a b. b = a \<or> b = swapcase_char a) s t"


section \<open>ClickHouse metadata: table assembly\<close>

text \<open>
  The records of \<^verbatim>\<open>app.model.metadata.dto\<close> with the fields that
  \<^verbatim>\<open>get_table_list\<close> fills in. Fields of the same name in two records are told
  apart by the record's name (\<open>Column.name\<close>, \<open>Table.name\<close>).
\<close>

record Column =
  name :: string
  type :: RustAnalyticsEngineColumnType
  notNull :: bool
  description :: string
  properties :: "(string \<times> string) list option"

record TableProperties =
  catalog :: "string option"
  schema :: string
  table :: string

record Table =
  name :: string
  description :: string
  columns :: "Column list"
  properties :: TableProperties
  primaryKey :: string

text \<open>
  One record of \<^verbatim>\<open>response\<close>: the six columns the catalog query selects.
\<close>

record row =
  table_schema :: string
  table_name :: string
  table_comment :: string
  column_name :: string
  data_type :: string
  column_comment :: string

text \<open>
  A Python \<^verbatim>\<open>dict\<close> keeps its keys in insertion order, and
  \<^verbatim>\<open>list(d.values())\<close> returns the values in that order: an association list
  with one pair per key. \<^verbatim>\<open>k in d\<close>, \<^verbatim>\<open>d[k]\<close> (which raises
  \<^verbatim>\<open>KeyError\<close> on a missing key), \<^verbatim>\<open>d[k] = v\<close> (a new key goes last, a known
  key keeps its place) and \<^verbatim>\<open>d.values()\<close>.
\<close>

datatype py_error = KeyError

definition dict_contains :: "('k \<times> 'v) list \<Rightarrow> 'k \<Rightarrow> bool" where
  "dict_contains d k = (map_of d k \<noteq> None)"

definition dict_getitem :: "('k \<times> 'v) list \<Rightarrow> 'k \<Rightarrow> py_error + 'v" where
  "dict_getitem d k = (case map_of d k of None \<Rightarrow> Inl KeyError | Some v \<Rightarrow> Inr v)"

definition dict_setitem :: "'k \<Rightarrow> 'v \<Rightarrow> ('k \<times> 'v) list \<Rightarrow> ('k \<times> 'v) list" where
  "dict_setitem k v d =
     (if dict_contains d k
      then map (\<lambda>(k', v'). if k' = k then (k', v) else (k', v')) d
      else d @ [(k, v)])"

definition dict_values :: "('k \<times> 'v) list \<Rightarrow> 'v list" where
  "dict_values d = map snd d"

text \<open>\<^verbatim>\<open>ClickHouseMetadata._format_compact_table_name\<close>: the f-string \<^verbatim>\<open>{schema}.{table}\<close>.\<close>

definition format_compact_table_name :: "string \<Rightarrow> string \<Rightarrow> string" where
  "format_compact_table_name s t = s @ ''.'' @ t"

text \<open>
  The state of the loop of \<^verbatim>\<open>get_table_list\<close>: the dictionary
  \<^verbatim>\<open>unique_tables\<close> and the diagnostics emitted so far.
\<close>

record assembly =
  unique_tables :: "(string \<times> Table) list"
  emitted :: "log_event list"

text \<open>
  The body of the loop, for one row. The table is created with no columns when its
  compact name is not a key yet; then \<^verbatim>\<open>unique_tables[schema_table]\<close> is read
  and the column appended to its \<^verbatim>\<open>columns\<close>. The append mutates the table that
  the dictionary holds: the dictionary then maps the key to the table with the longer
  list.
\<close>

definition process_row :: "row \<Rightarrow> assembly \<Rightarrow> py_error + assembly" where
  "process_row r st =
     (let schema_table = format_compact_table_name (table_schema r) (table_name r);
          tables =
            (if \<not> dict_contains (unique_tables st) schema_table
             then dict_setitem schema_table
                    \<lparr>Table.name = schema_table,
                     description = table_comment r,
                     columns = [],
                     properties = \<lparr>catalog = None, schema = table_schema r, table = table_name r\<rparr>,
                     primaryKey = ''''\<rparr>
                    (unique_tables st)
             else unique_tables st)
      in case dict_getitem tables schema_table of
           Inl e \<Rightarrow> Inl e
         | Inr t \<Rightarrow>
             (let (ty, events) = transform_column_type (data_type r);
                  col = \<lparr>Column.name = column_name r,
                         type = ty,
                         notNull = False,
                         description = column_comment r,
                         properties = None\<rparr>
              in Inr \<lparr>unique_tables =
                        dict_setitem schema_table (t\<lparr>columns := columns t @ [col]\<rparr>) tables,
                      emitted = emitted st @ events\<rparr>))"

fun table_loop :: "row list \<Rightarrow> assembly \<Rightarrow> py_error + assembly" where
  "table_loop [] st = Inr st"
| "table_loop (r # rs) st =
     (case process_row r st of Inl e \<Rightarrow> Inl e | Inr st' \<Rightarrow> table_loop rs st')"

text \<open>
  \<^verbatim>\<open>ClickHouseMetadata.get_table_list\<close>, from the records of the catalog query on:
  the loop from the empty dictionary, then the values of the dictionary. The result
  carries the diagnostics emitted on the way.
\<close>

definition get_table_list :: "row list \<Rightarrow> py_error + Table list \<times> log_event list" where
  "get_table_list response =
     (case table_loop response \<lparr>unique_tables = [], emitted = []\<rparr> of
        Inl e \<Rightarrow> Inl e
      | Inr st \<Rightarrow> Inr (dict_values (unique_tables st), emitted st))"

text \<open>
  What the assembly is to compute, stated on the rows as a whole. The compact names in
  the order of their first occurrence; for one compact name the rows that carry it, in
  their order; the table of a compact name: description and properties of the first
  such row, one column per such row (for a name that no row carries, which the assembly
  never asks for, a table with no columns); the diagnostics of all rows, in row order.
\<close>

definition compact_name :: "row \<Rightarrow> string" where
  "compact_name r = format_compact_table_name (table_schema r) (table_name r)"

fun first_seen :: "'a list \<Rightarrow> 'a list" where
  "first_seen [] = []"
| "first_seen (x # xs) = x # removeAll x (first_seen xs)"

definition rows_of :: "string \<Rightarrow> row list \<Rightarrow> row list" where
  "rows_of k rows = filter (\<lambda>r. compact_name r = k) rows"

definition row_column :: "row \<Rightarrow> Column" where
  "row_column r =
     \<lparr>Column.name = column_name r,
      type = fst (transform_column_type (data_type r)),
      notNull = False,
      description = column_comment r,
      properties = None\<rparr>"

definition grouped_table :: "string \<Rightarrow> row list \<Rightarrow> Table" where
  "grouped_table k rows =
     (case rows_of k rows of
        [] \<Rightarrow> \<lparr>Table.name = k, description = '''', columns = [],
               properties = \<lparr>catalog = None, schema = '''', table = ''''\<rparr>, primaryKey = ''''\<rparr>
      | r # rs \<Rightarrow>
          \<lparr>Table.name = k,
           description = table_comment r,
           columns = map row_column (r # rs),
           properties = \<lparr>catalog = None, schema = table_schema r, table = table_name r\<rparr>,
           primaryKey = ''''\<rparr>)"

definition table_assembly :: "row list \<Rightarrow> Table list" where
  "table_assembly rows = map (\<lambda>k. grouped_table k rows) (first_seen (map compact_name rows))"

definition type_warnings :: "row list \<Rightarrow> log_event list" where
  "type_warnings rows = concat (map (\<lambda>r. snd (transform_column_type (data_type r))) rows)"


text \<open>
  The dictionary of the loop after the rows \<open>rows\<close>, in closed form: one pair per
  compact name, in the order of first occurrence.
\<close>

definition keyed :: "row list \<Rightarrow> (string \<times> Table) list" where
  "keyed rows = map (\<lambda>k. (k, grouped_table k rows)) (first_seen (map compact_name rows))"


section \<open>Session contexts: the memoised factory\<close>

text \<open>
  The values a call of \<^verbatim>\<open>get_session_context\<close> passes: \<^verbatim>\<open>None\<close>, a
  \<^verbatim>\<open>str\<close>, or a \<^verbatim>\<open>frozenset\<close> with elements of type \<open>'p\<close>. Python compares
  them by value, and so does equality on the datatype. All of them are hashable, so
  making a key of them does not raise.
\<close>

datatype 'p pyval = PyNone | PyStr string | PyFrozenset "'p fset"

text \<open>
  A call as the caller writes it: the positional arguments and the keyword arguments, in
  the order given. \<^verbatim>\<open>get_session_context(m, fp)\<close> has \<open>args = [m, fp]\<close> and no
  keywords; \<^verbatim>\<open>get_session_context(m, fp, properties=p)\<close> has the same \<open>args\<close> and
  \<open>kwds = [(''properties'', p)]\<close>.
\<close>

record 'p call =
  args :: "'p pyval list"
  kwds :: "(string \<times> 'p pyval) list"

text \<open>
  The function is decorated with \<^verbatim>\<open>functools.cache\<close>, the standard library's
  unbounded memoiser. Its wrapper builds a key from the arguments as they were passed:
  the positional arguments, then, when there are keyword arguments, a marker object and
  every keyword's name and value in turn. A key of one element that is a \<^verbatim>\<open>str\<close> is
  the string itself; every other key is a sequence that compares element by element.
  The marker equals nothing but itself. Parameters left to their default are not part
  of the key.
\<close>

datatype 'p key_item = Item "'p pyval" | KwdMark

datatype 'p cache_key = Bare "'p pyval" | HashedSeq "'p key_item list"

definition make_key :: "'p pyval list \<Rightarrow> (string \<times> 'p pyval) list \<Rightarrow> 'p cache_key" where
  "make_key positional keywords =
     (let key = map Item positional @
                (if keywords = [] then []
                 else KwdMark # concat (map (\<lambda>(k, v). [Item (PyStr k), Item v]) keywords))
      in case key of
           [Item (PyStr s)] \<Rightarrow> Bare (PyStr s)
         | _ \<Rightarrow> HashedSeq key)"

text \<open>
  How Python binds a call to the signature
  \<^verbatim>\<open>(manifest_str, function_path, properties=None)\<close>: positional arguments fill the
  parameters from the left, a keyword argument fills the parameter of its name, and
  \<^verbatim>\<open>properties\<close> takes its default \<^verbatim>\<open>None\<close> when nothing fills it. The call
  raises \<^verbatim>\<open>TypeError\<close> (the value \<open>None\<close> here) when there are more than three
  positional arguments, when a keyword is repeated, names no parameter or names one that
  a positional argument has filled, and when \<^verbatim>\<open>manifest_str\<close> or
  \<^verbatim>\<open>function_path\<close> is left unfilled.
\<close>

definition parameters :: "string list" where
  "parameters = [''manifest_str'', ''function_path'', ''properties'']"

definition bind_args :: "'p call \<Rightarrow> ('p pyval \<times> 'p pyval \<times> 'p pyval) option" where
  "bind_args c =
     (let n = length (args c);
          names = map fst (kwds c);
          param = (\<lambda>i. if i < n then Some (args c ! i) else map_of (kwds c) (parameters ! i))
      in if 3 < n then None
         else if \<not> distinct names then None
         else if \<not> list_all (\<lambda>k. k \<in> set (drop n parameters)) names then None
         else case (param 0, param 1) of
                (Some manifest_str, Some function_path) \<Rightarrow>
                  Some (manifest_str, function_path,
                        case param 2 of None \<Rightarrow> PyNone | Some props \<Rightarrow> props)
              | _ \<Rightarrow> None)"

text \<open>
  What a call can raise: \<^verbatim>\<open>TypeError\<close> from the binding, or whatever the
  constructor raised.
\<close>

datatype 'e call_error = TypeError | Raised 'e

text \<open>
  A session context is an object: \<open>ident\<close> is its identity, \<open>content\<close> what the
  engine built. Two handles are the same instance when their identities are equal.
\<close>

record 'h SessionContext =
  ident :: nat
  content :: 'h

text \<open>
  \<^verbatim>\<open>analytics_core.SessionContext\<close>, the constructor of the native engine, is not
  part of this module: it is a parameter. It is given the number of constructor calls
  made before this one, so that its outcome may change from one call to the next, and
  the three arguments; it raises (\<open>Inl\<close>) or builds a value (\<open>Inr\<close>). Every object it
  builds is new: its identity is the number of the constructor call that built it.
\<close>

type_synonym ('p, 'e, 'h) constructor =
  "nat \<Rightarrow> 'p pyval \<Rightarrow> 'p pyval \<Rightarrow> 'p pyval \<Rightarrow> 'e + 'h"

text \<open>
  The state a call reads and writes: the dictionary of the memoiser and the list of the
  constructor calls made so far, each with its three arguments.
\<close>

record ('p, 'h) session_cache =
  cache :: "('p cache_key \<times> 'h SessionContext) list"
  constructed :: "('p pyval \<times> 'p pyval \<times> 'p pyval) list"

text \<open>
  \<^verbatim>\<open>get_session_context\<close> under its decorator. The wrapper makes the key and looks
  it up; on a hit it returns the stored handle. On a miss it calls the function, which
  binds the arguments and calls the constructor; when that returns, the wrapper stores
  the handle under the key and returns it. An exception of the binding or of the
  constructor leaves the wrapper before the store.
\<close>

definition get_session_context ::
  "('p, 'e, 'h) constructor \<Rightarrow> 'p call \<Rightarrow> ('p, 'h) session_cache
     \<Rightarrow> ('e call_error + 'h SessionContext) \<times> ('p, 'h) session_cache" where
  "get_session_context ctor c st =
     (let key = make_key (args c) (kwds c)
      in case map_of (cache st) key of
           Some h \<Rightarrow> (Inr h, st)
         | None \<Rightarrow>
             (case bind_args c of
                None \<Rightarrow> (Inl TypeError, st)
              | Some (manifest_str, function_path, props) \<Rightarrow>
                  (let n = length (constructed st);
                       st' = st\<lparr>constructed :=
                                  constructed st @ [(manifest_str, function_path, props)]\<rparr>
                   in case ctor n manifest_str function_path props of
                        Inl e \<Rightarrow> (Inl (Raised e), st')
                      | Inr v \<Rightarrow>
                          (let h = \<lparr>ident = n, content = v\<rparr>
                           in (Inr h, st'\<lparr>cache := dict_setitem key h (cache st')\<rparr>)))))"

text \<open>A sequence of calls, one after the other, each on the state the last one left.\<close>

fun run_calls ::
  "('p, 'e, 'h) constructor \<Rightarrow> 'p call list \<Rightarrow> ('p, 'h) session_cache \<Rightarrow> ('p, 'h) session_cache" where
  "run_calls ctor [] st = st"
| "run_calls ctor (c # cs) st = run_calls ctor cs (snd (get_session_context ctor c st))"

text \<open>
  The state of a fresh process, and two constructors to run the factory on: one that
  always builds \<open>v\<close>, one that raises \<open>e\<close> on the first constructor call and builds
  \<open>v\<close> from then on.
\<close>

definition empty_cache :: "('p, 'h) session_cache" where
  "empty_cache = \<lparr>cache = [], constructed = []\<rparr>"

definition always_constructs :: "'h \<Rightarrow> ('p, 'e, 'h) constructor" where
  "always_constructs v = (\<lambda>n manifest_str function_path props. Inr v)"

definition fails_first :: "'e \<Rightarrow> 'h \<Rightarrow> ('p, 'e, 'h) constructor" where
  "fails_first e v = (\<lambda>n manifest_str function_path props. if n = 0 then Inl e else Inr v)"


section \<open>Session contexts: callers that overlap\<close>

text \<open>
  Neither \<^verbatim>\<open>get_session_context\<close> nor the wrapper of \<^verbatim>\<open>functools.cache\<close> holds a
  lock from the look-up to the store: the wrapper reads the dictionary, calls the
  function, and writes the dictionary, and another thread may run between any two of
  these. A caller is therefore in one of four places: about to look the key up; past a
  miss and about to call the function; back from the function with a handle and about to
  store it; returned, with a handle or an exception.
\<close>

datatype ('p, 'e, 'h) caller =
    Lookup "'p call"
  | Call "'p call" "'p cache_key"
  | Store "'p cache_key" "'h SessionContext"
  | Returned "'e call_error + 'h SessionContext"

text \<open>
  The three operations of the wrapper, each on the shared state: the look-up of the
  key (\<open>Inr\<close> the stored handle, \<open>Inl\<close> the key on a miss), the call of the
  function (the binding and the constructor), and the store.
\<close>

definition cache_lookup :: "'p call \<Rightarrow> ('p, 'h) session_cache \<Rightarrow> 'p cache_key + 'h SessionContext" where
  "cache_lookup c st =
     (let key = make_key (args c) (kwds c)
      in case map_of (cache st) key of Some h \<Rightarrow> Inr h | None \<Rightarrow> Inl key)"

definition call_function ::
  "('p, 'e, 'h) constructor \<Rightarrow> 'p call \<Rightarrow> ('p, 'h) session_cache
     \<Rightarrow> ('e call_error + 'h SessionContext) \<times> ('p, 'h) session_cache" where
  "call_function ctor c st =
     (case bind_args c of
        None \<Rightarrow> (Inl TypeError, st)
      | Some (manifest_str, function_path, props) \<Rightarrow>
          (let n = length (constructed st);
               st' = st\<lparr>constructed :=
                          constructed st @ [(manifest_str, function_path, props)]\<rparr>
           in case ctor n manifest_str function_path props of
                Inl e \<Rightarrow> (Inl (Raised e), st')
              | Inr v \<Rightarrow> (Inr \<lparr>ident = n, content = v\<rparr>, st')))"

definition cache_store ::
  "'p cache_key \<Rightarrow> 'h SessionContext \<Rightarrow> ('p, 'h) session_cache \<Rightarrow> ('p, 'h) session_cache" where
  "cache_store key h st = st\<lparr>cache := dict_setitem key h (cache st)\<rparr>"

text \<open>
  One step of one caller. The call of the function is taken as a single step; the real
  call can itself be interrupted, so every run of this model is a run of the code.
\<close>

fun caller_step ::
  "('p, 'e, 'h) constructor \<Rightarrow> ('p, 'e, 'h) caller \<Rightarrow> ('p, 'h) session_cache
     \<Rightarrow> ('p, 'e, 'h) caller \<times> ('p, 'h) session_cache" where
  "caller_step ctor (Lookup c) st =
     (case cache_lookup c st of
        Inr h \<Rightarrow> (Returned (Inr h), st)
      | Inl key \<Rightarrow> (Call c key, st))"
| "caller_step ctor (Call c key) st =
     (case call_function ctor c st of
        (Inl e, st') \<Rightarrow> (Returned (Inl e), st')
      | (Inr h, st') \<Rightarrow> (Store key h, st'))"
| "caller_step ctor (Store key h) st = (Returned (Inr h), cache_store key h st)"
| "caller_step ctor (Returned r) st = (Returned r, st)"

text \<open>
  Several callers on one state. A schedule names, step by step, the caller that moves
  next (a number that names no caller moves nothing). In \<open>one_after_another order\<close>
  the callers run in the order given and each makes its three steps before the next
  one starts.
\<close>

fun run_schedule ::
  "('p, 'e, 'h) constructor \<Rightarrow> nat list
     \<Rightarrow> ('p, 'e, 'h) caller list \<times> ('p, 'h) session_cache
     \<Rightarrow> ('p, 'e, 'h) caller list \<times> ('p, 'h) session_cache" where
  "run_schedule ctor [] cfg = cfg"
| "run_schedule ctor (i # sched) (ts, st) =
     run_schedule ctor sched
       (if i < length ts
        then (case caller_step ctor (ts ! i) st of (t', st') \<Rightarrow> (ts[i := t'], st'))
        else (ts, st))"

definition one_after_another :: "nat list \<Rightarrow> nat list" where
  "one_after_another order = concat (map (\<lambda>i. [i, i, i]) order)"


section \<open>Properties of the type mapping\<close>

lemma lower_char_swapcase: "lower_char (swapcase_char c) = lower_char c"
  by (simp add: swapcase_char_def lower_char_def ascii_uppercase_def ascii_lowercase_def)

lemma case_variant_lower: "case_variant s t \<Longrightarrow> lower t = lower s"
  unfolding case_variant_def lower_def
  by (induction s t rule: list_all2_induct) (auto simp: lower_char_swapcase)

lemma mapping_keys:
  "CLICKHOUSE_TYPE_MAPPING k = Some ty \<Longrightarrow>
     k \<in> {''boolean'', ''int8'', ''uint8'', ''int16'', ''uint16'', ''int32'', ''uint32'',
          ''int64'', ''uint64'', ''float32'', ''float64'', ''decimal'', ''date'',
          ''datetime'', ''string'', ''fixedstring'', ''uuid'', ''enum8'', ''enum16'',
          ''ipv4'', ''ipv6''}"
  by (simp add: CLICKHOUSE_TYPE_MAPPING_def split: if_splits)

lemma mapping_keys_lower: "CLICKHOUSE_TYPE_MAPPING k = Some ty \<Longrightarrow> lower k = k"
  by (drule mapping_keys)
     (auto simp: lower_def lower_char_def ascii_uppercase_def ascii_lowercase_def)

lemma mapping_never_unknown: "CLICKHOUSE_TYPE_MAPPING k \<noteq> Some UNKNOWN"
  by (simp add: CLICKHOUSE_TYPE_MAPPING_def)

lemma transform_hit:
  "CLICKHOUSE_TYPE_MAPPING (lower s) = Some ty \<Longrightarrow> transform_column_type s = (ty, [])"
  using mapping_never_unknown [of "lower s"] by (auto simp: transform_column_type_def)

lemma transform_miss:
  "CLICKHOUSE_TYPE_MAPPING (lower s) = None \<Longrightarrow>
     transform_column_type s = (UNKNOWN, [(WARNING, ''Unknown ClickHouse data type: '' @ s)])"
  by (simp add: transform_column_type_def)

lemma lower_examples:
  "lower ''INT32'' = ''int32''" "lower ''int32'' = ''int32''" "lower ''Int32'' = ''int32''"
  "lower ''array(string)'' = ''array(string)''" "lower ''Array(String)'' = ''array(string)''"
  "lower [] = []"
  by (simp_all add: lower_def lower_char_def ascii_uppercase_def ascii_lowercase_def)

text \<open>
  C5. The type mapping is case-insensitive on the recognised type strings: when \<open>s\<close>
  is a key of the mapping table with canonical type \<open>ty\<close>, every string \<open>t\<close> that
  differs from \<open>s\<close> only in the case of its letters is mapped to \<open>ty\<close> as well, and
  no diagnostic is emitted. In particular \<open>INT32\<close> and \<open>int32\<close> are both mapped to
  \<open>INT4\<close>.
\<close>

theorem transform_column_type_case_insensitive:
  "(CLICKHOUSE_TYPE_MAPPING s = Some ty \<and> case_variant s t \<longrightarrow>
      transform_column_type t = (ty, []) \<and> transform_column_type s = (ty, []))
   \<and> fst (transform_column_type ''INT32'') = INT4
   \<and> fst (transform_column_type ''int32'') = INT4"
proof (intro conjI impI)
  assume h: "CLICKHOUSE_TYPE_MAPPING s = Some ty \<and> case_variant s t"
  then have ls: "lower s = s" and lt: "lower t = s"
    using mapping_keys_lower [of s ty] case_variant_lower [of s t] by simp_all
  from h lt show "transform_column_type t = (ty, [])"
    by (simp add: transform_hit)
  from h ls show "transform_column_type s = (ty, [])"
    by (simp add: transform_hit)
next
  have "CLICKHOUSE_TYPE_MAPPING ''int32'' = Some INT4"
    by (simp add: CLICKHOUSE_TYPE_MAPPING_def)
  then show "fst (transform_column_type ''INT32'') = INT4"
    and "fst (transform_column_type ''int32'') = INT4"
    by (simp_all add: transform_hit lower_examples)
qed

theorem transform_column_type_case_insensitive_witness:
  "CLICKHOUSE_TYPE_MAPPING ''fixedstring'' = Some CHAR'
   \<and> case_variant ''fixedstring'' ''FixedString''
   \<and> transform_column_type ''FixedString'' = (CHAR', [])
   \<and> transform_column_type ''fixedstring'' = (CHAR', [])"
proof -
  have m: "CLICKHOUSE_TYPE_MAPPING ''fixedstring'' = Some CHAR'"
    by (simp add: CLICKHOUSE_TYPE_MAPPING_def)
  have v: "case_variant ''fixedstring'' ''FixedString''"
    by (simp add: case_variant_def swapcase_char_def ascii_uppercase_def ascii_lowercase_def)
  from m v transform_column_type_case_insensitive [of "''fixedstring''" "CHAR'" "''FixedString''"]
  show ?thesis by simp
qed

text \<open>
  C6. For every type string whose lowered form is not a key of the mapping table, the
  type mapper returns \<open>UNKNOWN\<close> and emits exactly one event, at warning level, whose
  message ends with the string as it was given (not lowered). The function has no
  failing branch: its model is a total function with no error value. The empty string
  and \<open>array(string)\<close> are such strings.
\<close>

theorem transform_column_type_unknown:
  "(CLICKHOUSE_TYPE_MAPPING (lower s) = None \<longrightarrow>
      transform_column_type s = (UNKNOWN, [(WARNING, ''Unknown ClickHouse data type: '' @ s)]))
   \<and> transform_column_type [] = (UNKNOWN, [(WARNING, ''Unknown ClickHouse data type: '')])
   \<and> transform_column_type ''array(string)'' =
       (UNKNOWN, [(WARNING, ''Unknown ClickHouse data type: array(string)'')])"
proof (intro conjI impI)
  assume "CLICKHOUSE_TYPE_MAPPING (lower s) = None"
  then show "transform_column_type s = (UNKNOWN, [(WARNING, ''Unknown ClickHouse data type: '' @ s)])"
    by (rule transform_miss)
next
  have "CLICKHOUSE_TYPE_MAPPING (lower []) = None"
    by (simp add: lower_examples CLICKHOUSE_TYPE_MAPPING_def)
  from transform_miss [OF this]
  show "transform_column_type [] = (UNKNOWN, [(WARNING, ''Unknown ClickHouse data type: '')])"
    by simp
next
  have "CLICKHOUSE_TYPE_MAPPING (lower ''array(string)'') = None"
    by (simp add: lower_examples CLICKHOUSE_TYPE_MAPPING_def)
  from transform_miss [OF this]
  show "transform_column_type ''array(string)'' =
       (UNKNOWN, [(WARNING, ''Unknown ClickHouse data type: array(string)'')])"
    by simp
qed

theorem transform_column_type_unknown_witness:
  "CLICKHOUSE_TYPE_MAPPING (lower ''Array(String)'') = None
   \<and> transform_column_type ''Array(String)'' =
       (UNKNOWN, [(WARNING, ''Unknown ClickHouse data type: Array(String)'')])"
proof -
  have m: "CLICKHOUSE_TYPE_MAPPING (lower ''Array(String)'') = None"
    by (simp add: lower_examples CLICKHOUSE_TYPE_MAPPING_def)
  from m transform_column_type_unknown [of "''Array(String)''"]
  show ?thesis by simp
qed


section \<open>Properties of the table assembly\<close>

lemma first_seen_set [simp]: "set (first_seen xs) = set xs"
  by (induction xs) auto

lemma first_seen_distinct: "distinct (first_seen xs)"
  by (induction xs) (auto simp: distinct_removeAll)

lemma first_seen_snoc:
  "first_seen (xs @ [y]) = (if y \<in> set xs then first_seen xs else first_seen xs @ [y])"
  by (induction xs) auto

lemma table_loop_snoc:
  "table_loop (rs @ [r]) st =
     (case table_loop rs st of Inl e \<Rightarrow> Inl e | Inr st' \<Rightarrow> process_row r st')"
  by (induction rs arbitrary: st) (auto split: sum.splits)

lemma map_of_keyed:
  "map_of (map (\<lambda>k. (k, f k)) ks) k = (if k \<in> set ks then Some (f k) else None)"
  by (induction ks) auto

lemma rows_of_snoc:
  "rows_of k (rows @ [r]) = (if compact_name r = k then rows_of k rows @ [r] else rows_of k rows)"
  by (simp add: rows_of_def)

lemma rows_of_empty: "rows_of k rows = [] \<longleftrightarrow> k \<notin> set (map compact_name rows)"
  by (auto simp: rows_of_def filter_empty_conv)

lemma grouped_table_other:
  "compact_name r \<noteq> k \<Longrightarrow> grouped_table k (rows @ [r]) = grouped_table k rows"
  by (simp add: grouped_table_def rows_of_snoc)

lemma grouped_table_first:
  "compact_name r \<notin> set (map compact_name rows) \<Longrightarrow>
   grouped_table (compact_name r) (rows @ [r]) =
     \<lparr>Table.name = compact_name r, description = table_comment r, columns = [row_column r],
      properties = \<lparr>catalog = None, schema = table_schema r, table = table_name r\<rparr>,
      primaryKey = ''''\<rparr>"
  using rows_of_empty [of "compact_name r" rows]
  by (simp add: grouped_table_def rows_of_snoc)

lemma grouped_table_next:
  "compact_name r \<in> set (map compact_name rows) \<Longrightarrow>
   grouped_table (compact_name r) (rows @ [r]) =
     (grouped_table (compact_name r) rows)
       \<lparr>columns := columns (grouped_table (compact_name r) rows) @ [row_column r]\<rparr>"
  using rows_of_empty [of "compact_name r" rows]
  by (auto simp: grouped_table_def rows_of_snoc split: list.splits)

lemma process_row_keyed:
  "process_row r \<lparr>unique_tables = keyed rows, emitted = ev\<rparr> =
     Inr \<lparr>unique_tables = keyed (rows @ [r]),
          emitted = ev @ snd (transform_column_type (data_type r))\<rparr>"
proof (cases "compact_name r \<in> set (map compact_name rows)")
  case True
  then have c: "dict_contains (keyed rows) (compact_name r)"
    by (simp add: dict_contains_def keyed_def map_of_keyed)
  have g: "dict_getitem (keyed rows) (compact_name r) = Inr (grouped_table (compact_name r) rows)"
    using True by (simp add: dict_getitem_def keyed_def map_of_keyed)
  have s: "dict_setitem (compact_name r) (grouped_table (compact_name r) (rows @ [r])) (keyed rows)
           = keyed (rows @ [r])"
    using True c
    by (auto simp: dict_setitem_def keyed_def first_seen_snoc grouped_table_other)
  show ?thesis
    using True c g s
    by (simp add: process_row_def compact_name_def [symmetric] Let_def split_beta
        grouped_table_next row_column_def)
next
  case False
  let ?shell = "\<lparr>Table.name = compact_name r, description = table_comment r, columns = [],
      properties = \<lparr>catalog = None, schema = table_schema r, table = table_name r\<rparr>,
      primaryKey = ''''\<rparr>"
  from False have c: "\<not> dict_contains (keyed rows) (compact_name r)"
    by (simp add: dict_contains_def keyed_def map_of_keyed)
  have i: "dict_setitem (compact_name r) ?shell (keyed rows) = keyed rows @ [(compact_name r, ?shell)]"
    using c by (simp add: dict_setitem_def)
  have g: "dict_getitem (keyed rows @ [(compact_name r, ?shell)]) (compact_name r) = Inr ?shell"
    using c by (simp add: dict_getitem_def dict_contains_def map_of_append map_add_def)
  have c2: "dict_contains (keyed rows @ [(compact_name r, ?shell)]) (compact_name r)"
    by (simp add: dict_contains_def)
  have s: "dict_setitem (compact_name r) (grouped_table (compact_name r) (rows @ [r]))
             (keyed rows @ [(compact_name r, ?shell)]) = keyed (rows @ [r])"
    using False c2
    by (auto simp: dict_setitem_def keyed_def first_seen_snoc grouped_table_other)
  show ?thesis
    using False c i g s
    by (simp add: process_row_def compact_name_def [symmetric] Let_def split_beta
        grouped_table_first row_column_def)
qed

lemma table_loop_keyed:
  "table_loop rows \<lparr>unique_tables = [], emitted = []\<rparr> =
     Inr \<lparr>unique_tables = keyed rows, emitted = type_warnings rows\<rparr>"
proof (induction rows rule: rev_induct)
  case Nil
  show ?case by (simp add: keyed_def type_warnings_def)
next
  case (snoc r rows)
  then show ?case
    by (simp add: table_loop_snoc process_row_keyed type_warnings_def)
qed

lemma get_table_list_assembly:
  "get_table_list rows = Inr (table_assembly rows, type_warnings rows)"
  by (simp add: get_table_list_def table_loop_keyed dict_values_def keyed_def table_assembly_def
      comp_def)

lemma grouped_table_name: "Table.name (grouped_table k rows) = k"
  by (simp add: grouped_table_def split: list.splits)

lemma grouped_table_columns: "columns (grouped_table k rows) = map row_column (rows_of k rows)"
  by (simp add: grouped_table_def split: list.splits)

lemma grouped_table_primaryKey: "primaryKey (grouped_table k rows) = ''''"
  by (simp add: grouped_table_def split: list.splits)

lemma grouped_table_catalog: "catalog (Table.properties (grouped_table k rows)) = None"
  by (simp add: grouped_table_def split: list.splits)

lemma table_assembly_names:
  "map Table.name (table_assembly rows) = first_seen (map compact_name rows)"
  by (simp add: table_assembly_def comp_def grouped_table_name)

lemma table_assembly_columns:
  "map columns (table_assembly rows) =
     map (\<lambda>k. map row_column (rows_of k rows)) (first_seen (map compact_name rows))"
  by (simp add: table_assembly_def comp_def grouped_table_columns)

lemma table_assembly_member:
  "t \<in> set (table_assembly rows) \<Longrightarrow>
     t = grouped_table (Table.name t) rows \<and> Table.name t \<in> set (map compact_name rows)"
  by (auto simp: table_assembly_def grouped_table_name)

lemma distinct_pairs_groups:
  "distinct (map (\<lambda>r. (g r, h r)) xs) \<longleftrightarrow>
     (\<forall>k \<in> set (map g xs). distinct (map h (filter (\<lambda>r. g r = k) xs)))"
proof (induction xs)
  case Nil
  show ?case by simp
next
  case (Cons x xs)
  have empty: "filter (\<lambda>r. g r = g x) xs = []" if "g x \<notin> g ` set xs"
  proof -
    from that have "\<forall>r \<in> set xs. g r \<noteq> g x"
      by (metis imageI)
    then show ?thesis
      by (simp add: filter_empty_conv)
  qed
  have fresh: "(g x, h x) \<notin> (\<lambda>r. (g r, h r)) ` set xs \<longleftrightarrow>
               h x \<notin> h ` set (filter (\<lambda>r. g r = g x) xs)"
    by (auto simp: image_iff)
  have rest: "(\<forall>k \<in> insert (g x) (g ` set xs). distinct (map h (filter (\<lambda>r. g r = k) xs)))
              \<longleftrightarrow> (\<forall>k \<in> g ` set xs. distinct (map h (filter (\<lambda>r. g r = k) xs)))"
    using empty by (cases "g x \<in> g ` set xs") auto
  have split: "(\<forall>k \<in> set (map g (x # xs)). distinct (map h (filter (\<lambda>r. g r = k) (x # xs))))
     \<longleftrightarrow> h x \<notin> h ` set (filter (\<lambda>r. g r = g x) xs)
          \<and> (\<forall>k \<in> insert (g x) (g ` set xs). distinct (map h (filter (\<lambda>r. g r = k) xs)))"
    by auto
  show ?case
    unfolding split rest using Cons.IH fresh by simp
qed


lemma get_table_list_one_table:
  "get_table_list
      [\<lparr>table_schema = ''s1'', table_name = ''t1'', table_comment = '''',
        column_name = ''a'', data_type = ''int32'', column_comment = ''''\<rparr>,
       \<lparr>table_schema = ''s1'', table_name = ''t1'', table_comment = '''',
        column_name = ''b'', data_type = ''string'', column_comment = ''''\<rparr>] =
     Inr ([\<lparr>Table.name = ''s1.t1'', description = '''',
           columns = [\<lparr>Column.name = ''a'', type = INT4, notNull = False,
                 description = '''', properties = None\<rparr>,
                      \<lparr>Column.name = ''b'', type = VARCHAR, notNull = False,
                 description = '''', properties = None\<rparr>],
           properties = \<lparr>catalog = None, schema = ''s1'', table = ''t1''\<rparr>,
           primaryKey = ''''\<rparr>], [])"
  by (simp add: get_table_list_def process_row_def dict_contains_def dict_getitem_def
      dict_setitem_def dict_values_def format_compact_table_name_def
      transform_column_type_def CLICKHOUSE_TYPE_MAPPING_def lower_def lower_char_def
      ascii_uppercase_def ascii_lowercase_def Let_def)

lemma get_table_list_two_tables:
  "get_table_list
      [\<lparr>table_schema = ''s1'', table_name = ''t1'', table_comment = '''',
        column_name = ''a'', data_type = ''int32'', column_comment = ''''\<rparr>,
       \<lparr>table_schema = ''s2'', table_name = ''t2'', table_comment = '''',
        column_name = ''x'', data_type = ''Array(String)'', column_comment = ''''\<rparr>,
       \<lparr>table_schema = ''s1'', table_name = ''t1'', table_comment = '''',
        column_name = ''b'', data_type = ''String'', column_comment = ''''\<rparr>] =
     Inr ([\<lparr>Table.name = ''s1.t1'', description = '''',
           columns = [\<lparr>Column.name = ''a'', type = INT4, notNull = False,
                 description = '''', properties = None\<rparr>,
                      \<lparr>Column.name = ''b'', type = VARCHAR, notNull = False,
                 description = '''', properties = None\<rparr>],
           properties = \<lparr>catalog = None, schema = ''s1'', table = ''t1''\<rparr>,
           primaryKey = ''''\<rparr>,
          \<lparr>Table.name = ''s2.t2'', description = '''',
           columns = [\<lparr>Column.name = ''x'', type = UNKNOWN, notNull = False,
                 description = '''', properties = None\<rparr>],
           properties = \<lparr>catalog = None, schema = ''s2'', table = ''t2''\<rparr>,
           primaryKey = ''''\<rparr>],
          [(WARNING, ''Unknown ClickHouse data type: Array(String)'')])"
  by (simp add: get_table_list_def process_row_def dict_contains_def dict_getitem_def
      dict_setitem_def dict_values_def format_compact_table_name_def
      transform_column_type_def CLICKHOUSE_TYPE_MAPPING_def lower_def lower_char_def
      ascii_uppercase_def ascii_lowercase_def Let_def)

lemma get_table_list_merged:
  "get_table_list
      [\<lparr>table_schema = ''a.b'', table_name = ''c'', table_comment = '''',
        column_name = ''id'', data_type = ''Int64'', column_comment = ''''\<rparr>,
       \<lparr>table_schema = ''a'', table_name = ''b.c'', table_comment = '''',
        column_name = ''id'', data_type = ''String'', column_comment = ''''\<rparr>] =
     Inr ([\<lparr>Table.name = ''a.b.c'', description = '''',
           columns = [\<lparr>Column.name = ''id'', type = INT8, notNull = False,
                 description = '''', properties = None\<rparr>,
                      \<lparr>Column.name = ''id'', type = VARCHAR, notNull = False,
                 description = '''', properties = None\<rparr>],
           properties = \<lparr>catalog = None, schema = ''a.b'', table = ''c''\<rparr>,
           primaryKey = ''''\<rparr>], [])"
  by (simp add: get_table_list_def process_row_def dict_contains_def dict_getitem_def
      dict_setitem_def dict_values_def format_compact_table_name_def
      transform_column_type_def CLICKHOUSE_TYPE_MAPPING_def lower_def lower_char_def
      ascii_uppercase_def ascii_lowercase_def Let_def)

lemma returned_tables:
  "get_table_list rows = Inr (ts, evs) \<Longrightarrow> ts = table_assembly rows"
  by (simp add: get_table_list_assembly)

lemma row_column_name: "map Column.name (map row_column rs) = map column_name rs"
  by (simp add: row_column_def)

text \<open>
  C4. For every sequence of catalog rows \<open>get_table_list\<close> returns (it never raises
  \<open>KeyError\<close>), and what it returns is the grouping of the rows by compact name: the
  names of the returned tables are the compact names of the rows in the order of their
  first occurrence, so there is exactly one table per compact name and no two tables
  share one; the columns of each table are the columns of the rows with that compact
  name, in row order. The rows \<open>(s1, t1, a, int32)\<close>, \<open>(s1, t1, b, string)\<close> give
  the one table \<open>s1.t1\<close> with the columns \<open>a\<close> of type \<open>INT4\<close> and \<open>b\<close> of
  type \<open>VARCHAR\<close>, in that order.
\<close>

theorem get_table_list_groups_rows:
  "get_table_list rows = Inr (table_assembly rows, type_warnings rows)
   \<and> (get_table_list rows = Inr (ts, evs) \<longrightarrow>
        map Table.name ts = first_seen (map compact_name rows)
        \<and> distinct (map Table.name ts)
        \<and> set (map Table.name ts) = set (map compact_name rows)
        \<and> (\<forall>t \<in> set ts. columns t = map row_column (rows_of (Table.name t) rows)))
   \<and> get_table_list
      [\<lparr>table_schema = ''s1'', table_name = ''t1'', table_comment = '''',
        column_name = ''a'', data_type = ''int32'', column_comment = ''''\<rparr>,
       \<lparr>table_schema = ''s1'', table_name = ''t1'', table_comment = '''',
        column_name = ''b'', data_type = ''string'', column_comment = ''''\<rparr>] =
     Inr ([\<lparr>Table.name = ''s1.t1'', description = '''',
           columns = [\<lparr>Column.name = ''a'', type = INT4, notNull = False,
                 description = '''', properties = None\<rparr>,
                      \<lparr>Column.name = ''b'', type = VARCHAR, notNull = False,
                 description = '''', properties = None\<rparr>],
           properties = \<lparr>catalog = None, schema = ''s1'', table = ''t1''\<rparr>,
           primaryKey = ''''\<rparr>], [])"
proof (intro conjI impI ballI)
  show "get_table_list rows = Inr (table_assembly rows, type_warnings rows)"
    by (rule get_table_list_assembly)
next
  assume "get_table_list rows = Inr (ts, evs)"
  then have ts: "ts = table_assembly rows"
    by (rule returned_tables)
  show names: "map Table.name ts = first_seen (map compact_name rows)"
    by (simp add: ts table_assembly_names)
  show "distinct (map Table.name ts)"
    by (simp only: names first_seen_distinct)
  show "set (map Table.name ts) = set (map compact_name rows)"
    by (simp only: names first_seen_set)
  fix t
  assume "t \<in> set ts"
  then have "t = grouped_table (Table.name t) rows"
    using table_assembly_member [of t rows] by (simp add: ts)
  then show "columns t = map row_column (rows_of (Table.name t) rows)"
    using grouped_table_columns [of "Table.name t" rows] by simp
next
  show "get_table_list
      [\<lparr>table_schema = ''s1'', table_name = ''t1'', table_comment = '''',
        column_name = ''a'', data_type = ''int32'', column_comment = ''''\<rparr>,
       \<lparr>table_schema = ''s1'', table_name = ''t1'', table_comment = '''',
        column_name = ''b'', data_type = ''string'', column_comment = ''''\<rparr>] =
     Inr ([\<lparr>Table.name = ''s1.t1'', description = '''',
           columns = [\<lparr>Column.name = ''a'', type = INT4, notNull = False,
                 description = '''', properties = None\<rparr>,
                      \<lparr>Column.name = ''b'', type = VARCHAR, notNull = False,
                 description = '''', properties = None\<rparr>],
           properties = \<lparr>catalog = None, schema = ''s1'', table = ''t1''\<rparr>,
           primaryKey = ''''\<rparr>], [])"
    by (rule get_table_list_one_table)
qed

theorem get_table_list_groups_rows_witness:
  "get_table_list
      [\<lparr>table_schema = ''s1'', table_name = ''t1'', table_comment = '''',
        column_name = ''a'', data_type = ''int32'', column_comment = ''''\<rparr>,
       \<lparr>table_schema = ''s2'', table_name = ''t2'', table_comment = '''',
        column_name = ''x'', data_type = ''Array(String)'', column_comment = ''''\<rparr>,
       \<lparr>table_schema = ''s1'', table_name = ''t1'', table_comment = '''',
        column_name = ''b'', data_type = ''String'', column_comment = ''''\<rparr>] =
     Inr ([\<lparr>Table.name = ''s1.t1'', description = '''',
           columns = [\<lparr>Column.name = ''a'', type = INT4, notNull = False,
                 description = '''', properties = None\<rparr>,
                      \<lparr>Column.name = ''b'', type = VARCHAR, notNull = False,
                 description = '''', properties = None\<rparr>],
           properties = \<lparr>catalog = None, schema = ''s1'', table = ''t1''\<rparr>,
           primaryKey = ''''\<rparr>,
          \<lparr>Table.name = ''s2.t2'', description = '''',
           columns = [\<lparr>Column.name = ''x'', type = UNKNOWN, notNull = False,
                 description = '''', properties = None\<rparr>],
           properties = \<lparr>catalog = None, schema = ''s2'', table = ''t2''\<rparr>,
           primaryKey = ''''\<rparr>],
          [(WARNING, ''Unknown ClickHouse data type: Array(String)'')])
   \<and> map Table.name
        [\<lparr>Table.name = ''s1.t1'', description = '''',
           columns = [\<lparr>Column.name = ''a'', type = INT4, notNull = False,
                 description = '''', properties = None\<rparr>,
                      \<lparr>Column.name = ''b'', type = VARCHAR, notNull = False,
                 description = '''', properties = None\<rparr>],
           properties = \<lparr>catalog = None, schema = ''s1'', table = ''t1''\<rparr>,
           primaryKey = ''''\<rparr>,
          \<lparr>Table.name = ''s2.t2'', description = '''',
           columns = [\<lparr>Column.name = ''x'', type = UNKNOWN, notNull = False,
                 description = '''', properties = None\<rparr>],
           properties = \<lparr>catalog = None, schema = ''s2'', table = ''t2''\<rparr>,
           primaryKey = ''''\<rparr>] = [''s1.t1'', ''s2.t2'']
   \<and> distinct [''s1.t1'', ''s2.t2'']"
  using get_table_list_two_tables
    get_table_list_groups_rows [of
      "[\<lparr>table_schema = ''s1'', table_name = ''t1'', table_comment = '''',
        column_name = ''a'', data_type = ''int32'', column_comment = ''''\<rparr>,
       \<lparr>table_schema = ''s2'', table_name = ''t2'', table_comment = '''',
        column_name = ''x'', data_type = ''Array(String)'', column_comment = ''''\<rparr>,
       \<lparr>table_schema = ''s1'', table_name = ''t1'', table_comment = '''',
        column_name = ''b'', data_type = ''String'', column_comment = ''''\<rparr>]"
      "[\<lparr>Table.name = ''s1.t1'', description = '''',
           columns = [\<lparr>Column.name = ''a'', type = INT4, notNull = False,
                 description = '''', properties = None\<rparr>,
                      \<lparr>Column.name = ''b'', type = VARCHAR, notNull = False,
                 description = '''', properties = None\<rparr>],
           properties = \<lparr>catalog = None, schema = ''s1'', table = ''t1''\<rparr>,
           primaryKey = ''''\<rparr>,
          \<lparr>Table.name = ''s2.t2'', description = '''',
           columns = [\<lparr>Column.name = ''x'', type = UNKNOWN, notNull = False,
                 description = '''', properties = None\<rparr>],
           properties = \<lparr>catalog = None, schema = ''s2'', table = ''t2''\<rparr>,
           primaryKey = ''''\<rparr>]"
      "[(WARNING, ''Unknown ClickHouse data type: Array(String)'')]"]
  by simp

text \<open>
  C7, as amended. The columns of every returned table have pairwise different names
  exactly when no two rows share both the compact table name and the column name.
  The assembly appends one column per row and compares no column names, so rows that
  repeat a column name under one compact name give a table that repeats it.
\<close>

theorem get_table_list_column_names:
  "get_table_list rows = Inr (ts, evs) \<Longrightarrow>
     (\<forall>t \<in> set ts. distinct (map Column.name (columns t))) \<longleftrightarrow>
     distinct (map (\<lambda>r. (compact_name r, column_name r)) rows)"
proof -
  assume "get_table_list rows = Inr (ts, evs)"
  then have ts: "ts = table_assembly rows"
    by (rule returned_tables)
  have "(\<forall>t \<in> set ts. distinct (map Column.name (columns t))) \<longleftrightarrow>
        (\<forall>k \<in> set (map compact_name rows). distinct (map column_name (rows_of k rows)))"
    by (simp add: ts table_assembly_def grouped_table_columns comp_def row_column_def)
  also have "\<dots> \<longleftrightarrow> distinct (map (\<lambda>r. (compact_name r, column_name r)) rows)"
    using distinct_pairs_groups [of compact_name column_name rows]
    by (simp add: rows_of_def)
  finally show ?thesis .
qed

text \<open>
  C7 as stated fails. A database \<open>a.b\<close> with a table \<open>c\<close> and a database \<open>a\<close>
  with a table \<open>b.c\<close> have the compact name \<open>a.b.c\<close> in common; when both have
  a column \<open>id\<close>, the one returned table has two columns named \<open>id\<close>.
\<close>

theorem get_table_list_repeats_column_name:
  "get_table_list
      [\<lparr>table_schema = ''a.b'', table_name = ''c'', table_comment = '''',
        column_name = ''id'', data_type = ''Int64'', column_comment = ''''\<rparr>,
       \<lparr>table_schema = ''a'', table_name = ''b.c'', table_comment = '''',
        column_name = ''id'', data_type = ''String'', column_comment = ''''\<rparr>] =
     Inr ([\<lparr>Table.name = ''a.b.c'', description = '''',
           columns = [\<lparr>Column.name = ''id'', type = INT8, notNull = False,
                 description = '''', properties = None\<rparr>,
                      \<lparr>Column.name = ''id'', type = VARCHAR, notNull = False,
                 description = '''', properties = None\<rparr>],
           properties = \<lparr>catalog = None, schema = ''a.b'', table = ''c''\<rparr>,
           primaryKey = ''''\<rparr>], [])
   \<and> map Column.name (columns
          \<lparr>Table.name = ''a.b.c'', description = '''',
           columns = [\<lparr>Column.name = ''id'', type = INT8, notNull = False,
                 description = '''', properties = None\<rparr>,
                      \<lparr>Column.name = ''id'', type = VARCHAR, notNull = False,
                 description = '''', properties = None\<rparr>],
           properties = \<lparr>catalog = None, schema = ''a.b'', table = ''c''\<rparr>,
           primaryKey = ''''\<rparr>) = [''id'', ''id'']"
  using get_table_list_merged by simp

theorem get_table_list_column_names_witness:
  "get_table_list
      [\<lparr>table_schema = ''s1'', table_name = ''t1'', table_comment = '''',
        column_name = ''a'', data_type = ''int32'', column_comment = ''''\<rparr>,
       \<lparr>table_schema = ''s2'', table_name = ''t2'', table_comment = '''',
        column_name = ''x'', data_type = ''Array(String)'', column_comment = ''''\<rparr>,
       \<lparr>table_schema = ''s1'', table_name = ''t1'', table_comment = '''',
        column_name = ''b'', data_type = ''String'', column_comment = ''''\<rparr>] =
     Inr ([\<lparr>Table.name = ''s1.t1'', description = '''',
           columns = [\<lparr>Column.name = ''a'', type = INT4, notNull = False,
                 description = '''', properties = None\<rparr>,
                      \<lparr>Column.name = ''b'', type = VARCHAR, notNull = False,
                 description = '''', properties = None\<rparr>],
           properties = \<lparr>catalog = None, schema = ''s1'', table = ''t1''\<rparr>,
           primaryKey = ''''\<rparr>,
          \<lparr>Table.name = ''s2.t2'', description = '''',
           columns = [\<lparr>Column.name = ''x'', type = UNKNOWN, notNull = False,
                 description = '''', properties = None\<rparr>],
           properties = \<lparr>catalog = None, schema = ''s2'', table = ''t2''\<rparr>,
           primaryKey = ''''\<rparr>],
          [(WARNING, ''Unknown ClickHouse data type: Array(String)'')])
   \<and> distinct (map Column.name (columns
          \<lparr>Table.name = ''s1.t1'', description = '''',
           columns = [\<lparr>Column.name = ''a'', type = INT4, notNull = False,
                 description = '''', properties = None\<rparr>,
                      \<lparr>Column.name = ''b'', type = VARCHAR, notNull = False,
                 description = '''', properties = None\<rparr>],
           properties = \<lparr>catalog = None, schema = ''s1'', table = ''t1''\<rparr>,
           primaryKey = ''''\<rparr>))
   \<and> distinct (map Column.name (columns
          \<lparr>Table.name = ''s2.t2'', description = '''',
           columns = [\<lparr>Column.name = ''x'', type = UNKNOWN, notNull = False,
                 description = '''', properties = None\<rparr>],
           properties = \<lparr>catalog = None, schema = ''s2'', table = ''t2''\<rparr>,
           primaryKey = ''''\<rparr>))
   \<and> distinct (map (\<lambda>r. (compact_name r, column_name r))
      [\<lparr>table_schema = ''s1'', table_name = ''t1'', table_comment = '''',
        column_name = ''a'', data_type = ''int32'', column_comment = ''''\<rparr>,
       \<lparr>table_schema = ''s2'', table_name = ''t2'', table_comment = '''',
        column_name = ''x'', data_type = ''Array(String)'', column_comment = ''''\<rparr>,
       \<lparr>table_schema = ''s1'', table_name = ''t1'', table_comment = '''',
        column_name = ''b'', data_type = ''String'', column_comment = ''''\<rparr>])"
  using get_table_list_two_tables
    get_table_list_column_names [of
      "[\<lparr>table_schema = ''s1'', table_name = ''t1'', table_comment = '''',
        column_name = ''a'', data_type = ''int32'', column_comment = ''''\<rparr>,
       \<lparr>table_schema = ''s2'', table_name = ''t2'', table_comment = '''',
        column_name = ''x'', data_type = ''Array(String)'', column_comment = ''''\<rparr>,
       \<lparr>table_schema = ''s1'', table_name = ''t1'', table_comment = '''',
        column_name = ''b'', data_type = ''String'', column_comment = ''''\<rparr>]"
      "[\<lparr>Table.name = ''s1.t1'', description = '''',
           columns = [\<lparr>Column.name = ''a'', type = INT4, notNull = False,
                 description = '''', properties = None\<rparr>,
                      \<lparr>Column.name = ''b'', type = VARCHAR, notNull = False,
                 description = '''', properties = None\<rparr>],
           properties = \<lparr>catalog = None, schema = ''s1'', table = ''t1''\<rparr>,
           primaryKey = ''''\<rparr>,
          \<lparr>Table.name = ''s2.t2'', description = '''',
           columns = [\<lparr>Column.name = ''x'', type = UNKNOWN, notNull = False,
                 description = '''', properties = None\<rparr>],
           properties = \<lparr>catalog = None, schema = ''s2'', table = ''t2''\<rparr>,
           primaryKey = ''''\<rparr>]"
      "[(WARNING, ''Unknown ClickHouse data type: Array(String)'')]"]
  by simp

text \<open>
  C10. For every sequence of rows, every returned table has the empty string as
  \<open>primaryKey\<close> and no catalog in its properties, and every column of it has
  \<open>notNull = False\<close> and no properties, whatever the rows hold.
\<close>

theorem get_table_list_fixed_fields:
  "get_table_list rows = Inr (ts, evs) \<Longrightarrow> t \<in> set ts \<Longrightarrow>
     primaryKey t = '''' \<and> catalog (Table.properties t) = None
     \<and> (\<forall>c \<in> set (columns t). notNull c = False \<and> Column.properties c = None)"
proof -
  assume "get_table_list rows = Inr (ts, evs)" and "t \<in> set ts"
  then have t: "t = grouped_table (Table.name t) rows"
    using table_assembly_member [of t rows] returned_tables [of rows ts evs] by simp
  have pk: "primaryKey t = ''''"
    using grouped_table_primaryKey [of "Table.name t" rows] t by simp
  have cat: "catalog (Table.properties t) = None"
    using grouped_table_catalog [of "Table.name t" rows] t by simp
  have "columns t = map row_column (rows_of (Table.name t) rows)"
    using grouped_table_columns [of "Table.name t" rows] t by simp
  then have "\<forall>c \<in> set (columns t). notNull c = False \<and> Column.properties c = None"
    by (auto simp: row_column_def)
  with pk cat show ?thesis by simp
qed

theorem get_table_list_fixed_fields_witness:
  "get_table_list
      [\<lparr>table_schema = ''s1'', table_name = ''t1'', table_comment = '''',
        column_name = ''a'', data_type = ''int32'', column_comment = ''''\<rparr>,
       \<lparr>table_schema = ''s2'', table_name = ''t2'', table_comment = '''',
        column_name = ''x'', data_type = ''Array(String)'', column_comment = ''''\<rparr>,
       \<lparr>table_schema = ''s1'', table_name = ''t1'', table_comment = '''',
        column_name = ''b'', data_type = ''String'', column_comment = ''''\<rparr>] =
     Inr ([\<lparr>Table.name = ''s1.t1'', description = '''',
           columns = [\<lparr>Column.name = ''a'', type = INT4, notNull = False,
                 description = '''', properties = None\<rparr>,
                      \<lparr>Column.name = ''b'', type = VARCHAR, notNull = False,
                 description = '''', properties = None\<rparr>],
           properties = \<lparr>catalog = None, schema = ''s1'', table = ''t1''\<rparr>,
           primaryKey = ''''\<rparr>,
          \<lparr>Table.name = ''s2.t2'', description = '''',
           columns = [\<lparr>Column.name = ''x'', type = UNKNOWN, notNull = False,
                 description = '''', properties = None\<rparr>],
           properties = \<lparr>catalog = None, schema = ''s2'', table = ''t2''\<rparr>,
           primaryKey = ''''\<rparr>],
          [(WARNING, ''Unknown ClickHouse data type: Array(String)'')])
   \<and> primaryKey
          \<lparr>Table.name = ''s2.t2'', description = '''',
           columns = [\<lparr>Column.name = ''x'', type = UNKNOWN, notNull = False,
                 description = '''', properties = None\<rparr>],
           properties = \<lparr>catalog = None, schema = ''s2'', table = ''t2''\<rparr>,
           primaryKey = ''''\<rparr> = ''''
   \<and> catalog (Table.properties
          \<lparr>Table.name = ''s2.t2'', description = '''',
           columns = [\<lparr>Column.name = ''x'', type = UNKNOWN, notNull = False,
                 description = '''', properties = None\<rparr>],
           properties = \<lparr>catalog = None, schema = ''s2'', table = ''t2''\<rparr>,
           primaryKey = ''''\<rparr>) = None
   \<and> notNull \<lparr>Column.name = ''x'', type = UNKNOWN, notNull = False,
                 description = '''', properties = None\<rparr> = False
   \<and> Column.properties \<lparr>Column.name = ''x'', type = UNKNOWN, notNull = False,
                 description = '''', properties = None\<rparr> = None"
  using get_table_list_two_tables
    get_table_list_fixed_fields [of
      "[\<lparr>table_schema = ''s1'', table_name = ''t1'', table_comment = '''',
        column_name = ''a'', data_type = ''int32'', column_comment = ''''\<rparr>,
       \<lparr>table_schema = ''s2'', table_name = ''t2'', table_comment = '''',
        column_name = ''x'', data_type = ''Array(String)'', column_comment = ''''\<rparr>,
       \<lparr>table_schema = ''s1'', table_name = ''t1'', table_comment = '''',
        column_name = ''b'', data_type = ''String'', column_comment = ''''\<rparr>]"
      "[\<lparr>Table.name = ''s1.t1'', description = '''',
           columns = [\<lparr>Column.name = ''a'', type = INT4, notNull = False,
                 description = '''', properties = None\<rparr>,
                      \<lparr>Column.name = ''b'', type = VARCHAR, notNull = False,
                 description = '''', properties = None\<rparr>],
           properties = \<lparr>catalog = None, schema = ''s1'', table = ''t1''\<rparr>,
           primaryKey = ''''\<rparr>,
          \<lparr>Table.name = ''s2.t2'', description = '''',
           columns = [\<lparr>Column.name = ''x'', type = UNKNOWN, notNull = False,
                 description = '''', properties = None\<rparr>],
           properties = \<lparr>catalog = None, schema = ''s2'', table = ''t2''\<rparr>,
           primaryKey = ''''\<rparr>]"
      "[(WARNING, ''Unknown ClickHouse data type: Array(String)'')]"
      "\<lparr>Table.name = ''s2.t2'', description = '''',
           columns = [\<lparr>Column.name = ''x'', type = UNKNOWN, notNull = False,
                 description = '''', properties = None\<rparr>],
           properties = \<lparr>catalog = None, schema = ''s2'', table = ''t2''\<rparr>,
           primaryKey = ''''\<rparr>"]
  by simp


section \<open>Properties of the memoised factory\<close>

lemma dict_setitem_new: "map_of d k = None \<Longrightarrow> dict_setitem k v d = d @ [(k, v)]"
  by (simp add: dict_setitem_def dict_contains_def)

lemma map_of_snoc_keep: "map_of d k = Some v \<Longrightarrow> map_of (d @ [(k', v')]) k = Some v"
  by (simp add: map_of_append map_add_def)

lemma map_of_snoc_new: "map_of d k = None \<Longrightarrow> map_of (d @ [(k, v)]) k = Some v"
  by (simp add: map_of_append map_add_def)

lemma get_session_context_hit:
  "map_of (cache st) (make_key (args c) (kwds c)) = Some h \<Longrightarrow>
     get_session_context ctor c st = (Inr h, st)"
  by (simp add: get_session_context_def)

lemma get_session_context_keeps:
  "map_of (cache st) k = Some h \<Longrightarrow>
     map_of (cache (snd (get_session_context ctor c st))) k = Some h"
  by (auto simp: get_session_context_def Let_def dict_setitem_new map_add_def
      split: option.splits sum.splits prod.splits)

lemma get_session_context_stores:
  "get_session_context ctor c st = (Inr h, st1) \<Longrightarrow>
     map_of (cache st1) (make_key (args c) (kwds c)) = Some h"
  by (auto simp: get_session_context_def Let_def dict_setitem_new map_add_def
      split: option.splits sum.splits prod.splits)

lemma run_calls_keeps:
  "map_of (cache st) k = Some h \<Longrightarrow> map_of (cache (run_calls ctor cs st)) k = Some h"
  by (induction cs arbitrary: st) (simp_all add: get_session_context_keeps)

lemma get_session_context_miss:
  "map_of (cache st) (make_key (args c) (kwds c)) = None \<Longrightarrow>
   bind_args c = Some (m, fp, p) \<Longrightarrow>
     get_session_context ctor c st =
       (case ctor (length (constructed st)) m fp p of
          Inl e \<Rightarrow> (Inl (Raised e), st\<lparr>constructed := constructed st @ [(m, fp, p)]\<rparr>)
        | Inr v \<Rightarrow>
            (Inr \<lparr>ident = length (constructed st), content = v\<rparr>,
             \<lparr>cache = cache st @ [(make_key (args c) (kwds c),
                                   \<lparr>ident = length (constructed st), content = v\<rparr>)],
              constructed = constructed st @ [(m, fp, p)]\<rparr>))"
  by (simp add: get_session_context_def Let_def dict_setitem_new split: sum.splits)

lemma bind_two: "bind_args \<lparr>args = [m, fp], kwds = []\<rparr> = Some (m, fp, PyNone)"
  by (simp add: bind_args_def parameters_def)

lemma bind_three: "bind_args \<lparr>args = [m, fp, p], kwds = []\<rparr> = Some (m, fp, p)"
  by (simp add: bind_args_def parameters_def)

lemma key_two: "make_key [m, fp] [] = HashedSeq [Item m, Item fp]"
  by (simp add: make_key_def Let_def split: pyval.splits)

lemma key_three: "make_key [m, fp, p] [] = HashedSeq [Item m, Item fp, Item p]"
  by (simp add: make_key_def Let_def split: pyval.splits)

lemmas factory_eval =
  get_session_context_def make_key_def bind_args_def parameters_def dict_setitem_def
  dict_contains_def empty_cache_def always_constructs_def fails_first_def Let_def

text \<open>
  C1, as amended. When a call has returned a handle, every later call that passes the
  same positional arguments and the same keyword arguments, in the same order, returns
  that handle, the same instance, whatever calls were made in between, and leaves the
  state as it was: the constructor is not called again. The memoiser keys a call on the
  arguments as they were passed, so calls that name the same three values in different
  ways are not covered.
\<close>

theorem get_session_context_repeated_call:
  "get_session_context ctor c st = (Inr h, st1) \<Longrightarrow>
   args c' = args c \<Longrightarrow> kwds c' = kwds c \<Longrightarrow>
     get_session_context ctor c' (run_calls ctor cs st1) = (Inr h, run_calls ctor cs st1)"
proof -
  assume first: "get_session_context ctor c st = (Inr h, st1)"
    and same: "args c' = args c" "kwds c' = kwds c"
  from first have "map_of (cache st1) (make_key (args c) (kwds c)) = Some h"
    by (rule get_session_context_stores)
  then have "map_of (cache (run_calls ctor cs st1)) (make_key (args c') (kwds c')) = Some h"
    by (simp add: same run_calls_keeps)
  then show ?thesis
    by (rule get_session_context_hit)
qed

theorem get_session_context_repeated_call_witness:
  "get_session_context (always_constructs () :: (string \<times> nat, unit, unit) constructor)
      \<lparr>args = [PyStr ''M1'', PyStr ''fp''], kwds = []\<rparr> empty_cache =
     (Inr \<lparr>ident = 0, content = ()\<rparr>,
      \<lparr>cache = [(HashedSeq [Item (PyStr ''M1''), Item (PyStr ''fp'')],
                 \<lparr>ident = 0, content = ()\<rparr>)],
       constructed = [(PyStr ''M1'', PyStr ''fp'', PyNone)]\<rparr>)
   \<and> fst (get_session_context (always_constructs () :: (string \<times> nat, unit, unit) constructor)
        \<lparr>args = [PyStr ''M1'', PyStr ''fp''], kwds = []\<rparr>
        (run_calls (always_constructs () :: (string \<times> nat, unit, unit) constructor)
           [\<lparr>args = [PyStr ''M1'', PyStr ''fp'', PyFrozenset {|(''x'', 1)|}], kwds = []\<rparr>]
           \<lparr>cache = [(HashedSeq [Item (PyStr ''M1''), Item (PyStr ''fp'')],
                      \<lparr>ident = 0, content = ()\<rparr>)],
            constructed = [(PyStr ''M1'', PyStr ''fp'', PyNone)]\<rparr>)) =
     Inr \<lparr>ident = 0, content = ()\<rparr>
   \<and> constructed
       (snd (get_session_context (always_constructs () :: (string \<times> nat, unit, unit) constructor)
        \<lparr>args = [PyStr ''M1'', PyStr ''fp''], kwds = []\<rparr>
        (run_calls (always_constructs () :: (string \<times> nat, unit, unit) constructor)
           [\<lparr>args = [PyStr ''M1'', PyStr ''fp'', PyFrozenset {|(''x'', 1)|}], kwds = []\<rparr>]
           \<lparr>cache = [(HashedSeq [Item (PyStr ''M1''), Item (PyStr ''fp'')],
                      \<lparr>ident = 0, content = ()\<rparr>)],
            constructed = [(PyStr ''M1'', PyStr ''fp'', PyNone)]\<rparr>))) =
     [(PyStr ''M1'', PyStr ''fp'', PyNone),
      (PyStr ''M1'', PyStr ''fp'', PyFrozenset {|(''x'', 1)|})]"
proof -
  have first:
    "get_session_context (always_constructs () :: (string \<times> nat, unit, unit) constructor)
      \<lparr>args = [PyStr ''M1'', PyStr ''fp''], kwds = []\<rparr> empty_cache =
     (Inr \<lparr>ident = 0, content = ()\<rparr>,
      \<lparr>cache = [(HashedSeq [Item (PyStr ''M1''), Item (PyStr ''fp'')],
                 \<lparr>ident = 0, content = ()\<rparr>)],
       constructed = [(PyStr ''M1'', PyStr ''fp'', PyNone)]\<rparr>)"
    by (simp add: factory_eval)
  from first get_session_context_repeated_call [OF first,
      of "\<lparr>args = [PyStr ''M1'', PyStr ''fp''], kwds = []\<rparr>"
         "[\<lparr>args = [PyStr ''M1'', PyStr ''fp'', PyFrozenset {|(''x'', 1)|}], kwds = []\<rparr>]"]
  show ?thesis
    by (simp add: factory_eval)
qed

text \<open>
  C1 as stated fails. The calls \<^verbatim>\<open>get_session_context("M1", "fp")\<close> and
  \<^verbatim>\<open>get_session_context("M1", "fp", None)\<close> bind the same three values, yet the
  second, made right after the first, calls the constructor again and returns a
  second instance.
\<close>

theorem get_session_context_default_not_shared:
  "bind_args \<lparr>args = [PyStr ''M1'', PyStr ''fp''], kwds = []\<rparr> =
     Some (PyStr ''M1'', PyStr ''fp'', PyNone :: nat pyval)
   \<and> bind_args \<lparr>args = [PyStr ''M1'', PyStr ''fp'', PyNone], kwds = []\<rparr> =
     Some (PyStr ''M1'', PyStr ''fp'', PyNone :: nat pyval)
   \<and> get_session_context (always_constructs () :: (nat, unit, unit) constructor)
      \<lparr>args = [PyStr ''M1'', PyStr ''fp''], kwds = []\<rparr> empty_cache =
     (Inr \<lparr>ident = 0, content = ()\<rparr>,
      \<lparr>cache = [(HashedSeq [Item (PyStr ''M1''), Item (PyStr ''fp'')],
                 \<lparr>ident = 0, content = ()\<rparr>)],
       constructed = [(PyStr ''M1'', PyStr ''fp'', PyNone)]\<rparr>)
   \<and> get_session_context (always_constructs () :: (nat, unit, unit) constructor)
      \<lparr>args = [PyStr ''M1'', PyStr ''fp'', PyNone], kwds = []\<rparr>
      \<lparr>cache = [(HashedSeq [Item (PyStr ''M1''), Item (PyStr ''fp'')],
                 \<lparr>ident = 0, content = ()\<rparr>)],
       constructed = [(PyStr ''M1'', PyStr ''fp'', PyNone)]\<rparr> =
     (Inr \<lparr>ident = 1, content = ()\<rparr>,
      \<lparr>cache = [(HashedSeq [Item (PyStr ''M1''), Item (PyStr ''fp'')],
                 \<lparr>ident = 0, content = ()\<rparr>),
                (HashedSeq [Item (PyStr ''M1''), Item (PyStr ''fp''), Item PyNone],
                 \<lparr>ident = 1, content = ()\<rparr>)],
       constructed = [(PyStr ''M1'', PyStr ''fp'', PyNone),
                      (PyStr ''M1'', PyStr ''fp'', PyNone)]\<rparr>)"
  by (simp add: factory_eval)

text \<open>
  C2. When a call misses the cache and the constructor raises, the call raises what the
  constructor raised and the cache is as it was before the call: nothing is stored for
  the key. The same call made next calls the constructor again, and its outcome is the
  outcome of that second constructor call: the new exception, or a new handle that is
  then stored.
\<close>

theorem get_session_context_failure_not_cached:
  "map_of (cache st) (make_key (args c) (kwds c)) = None \<Longrightarrow>
   bind_args c = Some (m, fp, p) \<Longrightarrow>
   ctor (length (constructed st)) m fp p = Inl e \<Longrightarrow>
     get_session_context ctor c st =
       (Inl (Raised e), st\<lparr>constructed := constructed st @ [(m, fp, p)]\<rparr>)
     \<and> cache (snd (get_session_context ctor c st)) = cache st
     \<and> get_session_context ctor c (snd (get_session_context ctor c st)) =
         (case ctor (Suc (length (constructed st))) m fp p of
            Inl e' \<Rightarrow>
              (Inl (Raised e'),
               st\<lparr>constructed := constructed st @ [(m, fp, p), (m, fp, p)]\<rparr>)
          | Inr v \<Rightarrow>
              (Inr \<lparr>ident = Suc (length (constructed st)), content = v\<rparr>,
               \<lparr>cache = cache st @
                   [(make_key (args c) (kwds c),
                     \<lparr>ident = Suc (length (constructed st)), content = v\<rparr>)],
                constructed = constructed st @ [(m, fp, p), (m, fp, p)]\<rparr>))"
proof -
  assume miss: "map_of (cache st) (make_key (args c) (kwds c)) = None"
    and bound: "bind_args c = Some (m, fp, p)"
    and raised: "ctor (length (constructed st)) m fp p = Inl e"
  let ?st' = "st\<lparr>constructed := constructed st @ [(m, fp, p)]\<rparr>"
  have first: "get_session_context ctor c st = (Inl (Raised e), ?st')"
    using get_session_context_miss [OF miss bound, of ctor] raised by simp
  have miss': "map_of (cache ?st') (make_key (args c) (kwds c)) = None"
    using miss by simp
  have second: "get_session_context ctor c ?st' =
         (case ctor (Suc (length (constructed st))) m fp p of
            Inl e' \<Rightarrow>
              (Inl (Raised e'),
               st\<lparr>constructed := constructed st @ [(m, fp, p), (m, fp, p)]\<rparr>)
          | Inr v \<Rightarrow>
              (Inr \<lparr>ident = Suc (length (constructed st)), content = v\<rparr>,
               \<lparr>cache = cache st @
                   [(make_key (args c) (kwds c),
                     \<lparr>ident = Suc (length (constructed st)), content = v\<rparr>)],
                constructed = constructed st @ [(m, fp, p), (m, fp, p)]\<rparr>))"
    using get_session_context_miss [OF miss' bound, of ctor]
    by (simp split: sum.splits)
  from first second show ?thesis by simp
qed

theorem get_session_context_failure_not_cached_witness:
  "get_session_context (fails_first ''boom'' () :: (nat, string, unit) constructor)
      \<lparr>args = [PyStr ''M1'', PyStr ''fp''], kwds = []\<rparr> empty_cache =
     (Inl (Raised ''boom''),
      \<lparr>cache = [], constructed = [(PyStr ''M1'', PyStr ''fp'', PyNone)]\<rparr>)
   \<and> get_session_context (fails_first ''boom'' () :: (nat, string, unit) constructor)
      \<lparr>args = [PyStr ''M1'', PyStr ''fp''], kwds = []\<rparr>
      \<lparr>cache = [], constructed = [(PyStr ''M1'', PyStr ''fp'', PyNone)]\<rparr> =
     (Inr \<lparr>ident = 1, content = ()\<rparr>,
      \<lparr>cache = [(HashedSeq [Item (PyStr ''M1''), Item (PyStr ''fp'')],
                 \<lparr>ident = 1, content = ()\<rparr>)],
       constructed = [(PyStr ''M1'', PyStr ''fp'', PyNone),
                      (PyStr ''M1'', PyStr ''fp'', PyNone)]\<rparr>)"
proof -
  have miss: "map_of (cache (empty_cache :: (nat, unit) session_cache))
      (make_key (args \<lparr>args = [PyStr ''M1'', PyStr ''fp''], kwds = []\<rparr>)
                (kwds \<lparr>args = [PyStr ''M1'', PyStr ''fp''], kwds = []\<rparr>)) = None"
    by (simp add: empty_cache_def)
  have bound: "bind_args \<lparr>args = [PyStr ''M1'', PyStr ''fp''], kwds = []\<rparr> =
      Some (PyStr ''M1'', PyStr ''fp'', PyNone :: nat pyval)"
    by (simp add: bind_two)
  have raised: "(fails_first ''boom'' () :: (nat, string, unit) constructor)
      (length (constructed (empty_cache :: (nat, unit) session_cache)))
      (PyStr ''M1'') (PyStr ''fp'') PyNone = Inl ''boom''"
    by (simp add: fails_first_def empty_cache_def)
  from miss bound raised
    get_session_context_failure_not_cached [of
      "empty_cache :: (nat, unit) session_cache"
      "\<lparr>args = [PyStr ''M1'', PyStr ''fp''], kwds = []\<rparr>"
      "PyStr ''M1''" "PyStr ''fp''" PyNone
      "fails_first ''boom'' () :: (nat, string, unit) constructor" "''boom''"]
  show ?thesis
    by (auto simp: empty_cache_def fails_first_def key_two)
qed

text \<open>
  C9. The calls \<^verbatim>\<open>get_session_context(m, fp)\<close> and
  \<^verbatim>\<open>get_session_context(m, fp, None)\<close> bind the same three values but have
  different keys. Made one after the other in a fresh process, with a constructor that
  builds both times, each calls the constructor, the two handles are different
  instances, and the cache ends with one entry for each call.
\<close>

theorem get_session_context_default_is_own_entry:
  "bind_args \<lparr>args = [m, fp], kwds = []\<rparr> = Some (m, fp, PyNone)
   \<and> bind_args \<lparr>args = [m, fp, PyNone], kwds = []\<rparr> = Some (m, fp, PyNone)
   \<and> make_key [m, fp] [] \<noteq> make_key [m, fp, PyNone] []
   \<and> (ctor 0 m fp PyNone = Inr v0 \<and> ctor 1 m fp PyNone = Inr v1 \<longrightarrow>
        get_session_context ctor \<lparr>args = [m, fp], kwds = []\<rparr> empty_cache =
          (Inr \<lparr>ident = 0, content = v0\<rparr>,
           \<lparr>cache = [(make_key [m, fp] [], \<lparr>ident = 0, content = v0\<rparr>)],
            constructed = [(m, fp, PyNone)]\<rparr>)
        \<and> get_session_context ctor \<lparr>args = [m, fp, PyNone], kwds = []\<rparr>
            \<lparr>cache = [(make_key [m, fp] [], \<lparr>ident = 0, content = v0\<rparr>)],
             constructed = [(m, fp, PyNone)]\<rparr> =
          (Inr \<lparr>ident = 1, content = v1\<rparr>,
           \<lparr>cache = [(make_key [m, fp] [], \<lparr>ident = 0, content = v0\<rparr>),
                     (make_key [m, fp, PyNone] [], \<lparr>ident = 1, content = v1\<rparr>)],
            constructed = [(m, fp, PyNone), (m, fp, PyNone)]\<rparr>))"
proof (intro conjI impI)
  show "bind_args \<lparr>args = [m, fp], kwds = []\<rparr> = Some (m, fp, PyNone)"
    by (rule bind_two)
  show "bind_args \<lparr>args = [m, fp, PyNone], kwds = []\<rparr> = Some (m, fp, PyNone)"
    by (rule bind_three)
  show differ: "make_key [m, fp] [] \<noteq> make_key [m, fp, PyNone] []"
    by (simp add: key_two key_three)
  assume built: "ctor 0 m fp PyNone = Inr v0 \<and> ctor 1 m fp PyNone = Inr v1"
  show "get_session_context ctor \<lparr>args = [m, fp], kwds = []\<rparr> empty_cache =
          (Inr \<lparr>ident = 0, content = v0\<rparr>,
           \<lparr>cache = [(make_key [m, fp] [], \<lparr>ident = 0, content = v0\<rparr>)],
            constructed = [(m, fp, PyNone)]\<rparr>)"
    using built get_session_context_miss [of empty_cache "\<lparr>args = [m, fp], kwds = []\<rparr>" m fp PyNone ctor]
    by (simp add: empty_cache_def bind_two)
  show "get_session_context ctor \<lparr>args = [m, fp, PyNone], kwds = []\<rparr>
            \<lparr>cache = [(make_key [m, fp] [], \<lparr>ident = 0, content = v0\<rparr>)],
             constructed = [(m, fp, PyNone)]\<rparr> =
          (Inr \<lparr>ident = 1, content = v1\<rparr>,
           \<lparr>cache = [(make_key [m, fp] [], \<lparr>ident = 0, content = v0\<rparr>),
                     (make_key [m, fp, PyNone] [], \<lparr>ident = 1, content = v1\<rparr>)],
            constructed = [(m, fp, PyNone), (m, fp, PyNone)]\<rparr>)"
    using built differ
      get_session_context_miss [of
        "\<lparr>cache = [(make_key [m, fp] [], \<lparr>ident = 0, content = v0\<rparr>)],
          constructed = [(m, fp, PyNone)]\<rparr>"
        "\<lparr>args = [m, fp, PyNone], kwds = []\<rparr>" m fp PyNone ctor]
    by (simp add: bind_three)
qed

theorem get_session_context_default_is_own_entry_witness:
  "(always_constructs ''ctx'' :: (nat, unit, string) constructor) 0 PyNone (PyStr ''fns'') PyNone = Inr ''ctx''
   \<and> (always_constructs ''ctx'' :: (nat, unit, string) constructor) 1 PyNone (PyStr ''fns'') PyNone = Inr ''ctx''
   \<and> get_session_context (always_constructs ''ctx'' :: (nat, unit, string) constructor)
        \<lparr>args = [PyNone, PyStr ''fns''], kwds = []\<rparr> empty_cache =
          (Inr \<lparr>ident = 0, content = ''ctx''\<rparr>,
           \<lparr>cache = [(HashedSeq [Item PyNone, Item (PyStr ''fns'')],
                      \<lparr>ident = 0, content = ''ctx''\<rparr>)],
            constructed = [(PyNone, PyStr ''fns'', PyNone)]\<rparr>)
   \<and> get_session_context (always_constructs ''ctx'' :: (nat, unit, string) constructor)
        \<lparr>args = [PyNone, PyStr ''fns'', PyNone], kwds = []\<rparr>
           \<lparr>cache = [(HashedSeq [Item PyNone, Item (PyStr ''fns'')],
                      \<lparr>ident = 0, content = ''ctx''\<rparr>)],
            constructed = [(PyNone, PyStr ''fns'', PyNone)]\<rparr> =
          (Inr \<lparr>ident = 1, content = ''ctx''\<rparr>,
           \<lparr>cache = [(HashedSeq [Item PyNone, Item (PyStr ''fns'')],
                      \<lparr>ident = 0, content = ''ctx''\<rparr>),
                     (HashedSeq [Item PyNone, Item (PyStr ''fns''), Item PyNone],
                      \<lparr>ident = 1, content = ''ctx''\<rparr>)],
            constructed = [(PyNone, PyStr ''fns'', PyNone), (PyNone, PyStr ''fns'', PyNone)]\<rparr>)"
  using get_session_context_default_is_own_entry
    [of PyNone "PyStr ''fns''" "always_constructs ''ctx'' :: (nat, unit, string) constructor"
        "''ctx''" "''ctx''"]
  by (simp add: always_constructs_def key_two key_three)


section \<open>Properties of overlapping callers\<close>

lemma get_session_context_steps:
  "get_session_context ctor c st =
     (case cache_lookup c st of
        Inr h \<Rightarrow> (Inr h, st)
      | Inl key \<Rightarrow>
          (case call_function ctor c st of
             (Inl e, st') \<Rightarrow> (Inl e, st')
           | (Inr h, st') \<Rightarrow> (Inr h, cache_store key h st')))"
  by (simp add: get_session_context_def cache_lookup_def call_function_def cache_store_def
      Let_def split: option.splits sum.splits prod.splits)

lemma caller_runs_call:
  "i < length ts \<Longrightarrow> ts ! i = Lookup c \<Longrightarrow>
     run_schedule ctor ([i, i, i] @ sched) (ts, st) =
       run_schedule ctor sched
         (ts[i := Returned (fst (get_session_context ctor c st))],
          snd (get_session_context ctor c st))"
  by (auto simp: get_session_context_steps split: sum.splits prod.splits)

lemma caller_returned_stays:
  "i < length ts \<Longrightarrow> ts ! i = Returned r \<Longrightarrow>
     run_schedule ctor ([i, i, i] @ sched) (ts, st) = run_schedule ctor sched (ts, st)"
  using list_update_id [of ts i] by simp

lemma caller_absent:
  "\<not> i < length ts \<Longrightarrow>
     run_schedule ctor ([i, i, i] @ sched) (ts, st) = run_schedule ctor sched (ts, st)"
  by simp

lemma later_callers_hit:
  "map_of (cache st) (make_key (args c) (kwds c)) = Some h \<Longrightarrow>
   \<forall>t \<in> set ts. t = Lookup c \<or> t = Returned (Inr h) \<Longrightarrow>
     run_schedule ctor (one_after_another order) (ts, st) =
       (fold (\<lambda>i ts. ts[i := Returned (Inr h)]) order ts, st)"
proof (induction order arbitrary: ts)
  case Nil
  show ?case by (simp add: one_after_another_def)
next
  case (Cons i order)
  have hit: "get_session_context ctor c st = (Inr h, st)"
    using Cons.prems(1) by (rule get_session_context_hit)
  have inv: "\<forall>t \<in> set (ts[i := Returned (Inr h)]). t = Lookup c \<or> t = Returned (Inr h)"
    using Cons.prems(2) set_update_subset_insert [of ts i "Returned (Inr h)"] by auto
  have unfold: "one_after_another (i # order) = [i, i, i] @ one_after_another order"
    by (simp add: one_after_another_def)
  have "run_schedule ctor (one_after_another (i # order)) (ts, st) =
        run_schedule ctor (one_after_another order) (ts[i := Returned (Inr h)], st)"
  proof (cases "i < length ts")
    case False
    then have "ts[i := Returned (Inr h)] = ts"
      by (simp add: list_update_beyond)
    with caller_absent [OF False, of ctor "one_after_another order" st]
    show ?thesis
      by (simp only: unfold)
  next
    case True
    then have "ts ! i = Lookup c \<or> ts ! i = Returned (Inr h)"
      using Cons.prems(2) nth_mem by blast
    then show ?thesis
    proof
      assume "ts ! i = Lookup c"
      with caller_runs_call [OF True, of c ctor "one_after_another order" st] hit
      show ?thesis
        by (simp only: unfold fst_conv snd_conv)
    next
      assume r: "ts ! i = Returned (Inr h)"
      then have "ts[i := Returned (Inr h)] = ts"
        by (metis list_update_id)
      with caller_returned_stays [OF True r, of ctor "one_after_another order" st]
      show ?thesis
        by (simp only: unfold)
    qed
  qed
  also have "\<dots> = (fold (\<lambda>i ts. ts[i := Returned (Inr h)]) order (ts[i := Returned (Inr h)]), st)"
    using Cons.IH [OF Cons.prems(1) inv] .
  finally show ?case by simp
qed

lemma fold_update_length: "length (fold (\<lambda>i ts. ts[i := x]) order ts) = length ts"
  by (induction order arbitrary: ts) simp_all

lemma fold_update_nth:
  "j < length ts \<Longrightarrow>
     fold (\<lambda>i ts. ts[i := x]) order ts ! j = (if j \<in> set order then x else ts ! j)"
  by (induction order arbitrary: ts) (auto simp: fold_update_length nth_list_update)

lemma fold_update_all:
  "{0..<length ts} \<subseteq> set order \<Longrightarrow>
     fold (\<lambda>i ts. ts[i := x]) order ts = replicate (length ts) x"
  by (rule nth_equalityI) (auto simp: fold_update_length fold_update_nth)

text \<open>
  C3, as amended. When the callers of one call with a previously unseen key run one
  after another, each returning before the next one starts, in any order, and the
  constructor builds a value, the constructor is called exactly once and every caller
  returns the same handle instance, which is the one entry stored for the key.
\<close>

theorem callers_one_after_another:
  "map_of (cache st) (make_key (args c) (kwds c)) = None \<Longrightarrow>
   bind_args c = Some (m, fp, p) \<Longrightarrow>
   (ctor :: ('p, 'e, 'h) constructor) (length (constructed st)) m fp p = Inr v \<Longrightarrow>
   0 < n \<Longrightarrow> set order = {0..<n} \<Longrightarrow>
     run_schedule ctor (one_after_another order) (replicate n (Lookup c), st) =
       (replicate n (Returned (Inr \<lparr>ident = length (constructed st), content = v\<rparr>)),
        \<lparr>cache = cache st @
            [(make_key (args c) (kwds c), \<lparr>ident = length (constructed st), content = v\<rparr>)],
         constructed = constructed st @ [(m, fp, p)]\<rparr>)"
proof -
  assume miss: "map_of (cache st) (make_key (args c) (kwds c)) = None"
    and bound: "bind_args c = Some (m, fp, p)"
    and built: "ctor (length (constructed st)) m fp p = Inr v"
    and callers: "0 < n" "set order = {0..<n}"
  let ?h = "\<lparr>ident = length (constructed st), content = v\<rparr>"
  let ?st1 = "\<lparr>cache = cache st @ [(make_key (args c) (kwds c), ?h)],
              constructed = constructed st @ [(m, fp, p)]\<rparr>"
  let ?ts = "replicate n (Lookup c) :: ('p, 'e, 'h) caller list"
  from callers obtain i rest where order: "order = i # rest"
    by (cases order) auto
  with callers have i: "i < length ?ts"
    by auto
  then have at_i: "?ts ! i = Lookup c"
    by simp
  have first: "get_session_context ctor c st = (Inr ?h, ?st1)"
    using get_session_context_miss [OF miss bound, of ctor] built by simp
  have stored: "map_of (cache ?st1) (make_key (args c) (kwds c)) = Some ?h"
    using map_of_snoc_new [OF miss] by simp
  have inv: "\<forall>t \<in> set (?ts[i := Returned (Inr ?h)]). t = Lookup c \<or> t = Returned (Inr ?h)"
    using set_update_subset_insert [of ?ts i "Returned (Inr ?h)"] by auto
  have "run_schedule ctor (one_after_another order) (?ts, st) =
        run_schedule ctor (one_after_another rest) (?ts[i := Returned (Inr ?h)], ?st1)"
    using caller_runs_call [OF i at_i, of ctor "one_after_another rest" st] first
    by (simp add: order one_after_another_def)
  also have "\<dots> = (fold (\<lambda>i ts. ts[i := Returned (Inr ?h)]) rest (?ts[i := Returned (Inr ?h)]), ?st1)"
    using later_callers_hit [OF stored inv] .
  also have "fold (\<lambda>i ts. ts[i := Returned (Inr ?h)]) rest (?ts[i := Returned (Inr ?h)]) =
             fold (\<lambda>i ts. ts[i := Returned (Inr ?h)]) order ?ts"
    by (simp add: order)
  also have "\<dots> = replicate n (Returned (Inr ?h))"
    using fold_update_all [of ?ts order "Returned (Inr ?h)"] callers by simp
  finally show ?thesis .
qed

lemmas schedule_eval =
  cache_lookup_def call_function_def cache_store_def make_key_def bind_args_def
  parameters_def dict_setitem_def dict_contains_def empty_cache_def always_constructs_def
  one_after_another_def Let_def

theorem callers_one_after_another_witness:
  "run_schedule (always_constructs () :: (nat, unit, unit) constructor)
      (one_after_another [1, 0])
      ([Lookup \<lparr>args = [PyStr ''M1'', PyStr ''fp''], kwds = []\<rparr>,
        Lookup \<lparr>args = [PyStr ''M1'', PyStr ''fp''], kwds = []\<rparr>],
       empty_cache) =
     ([Returned (Inr \<lparr>ident = 0, content = ()\<rparr>),
       Returned (Inr \<lparr>ident = 0, content = ()\<rparr>)],
      \<lparr>cache = [(HashedSeq [Item (PyStr ''M1''), Item (PyStr ''fp'')],
                 \<lparr>ident = 0, content = ()\<rparr>)],
       constructed = [(PyStr ''M1'', PyStr ''fp'', PyNone)]\<rparr>)"
proof -
  have miss: "map_of (cache (empty_cache :: (nat, unit) session_cache))
      (make_key (args \<lparr>args = [PyStr ''M1'', PyStr ''fp''], kwds = []\<rparr>)
                (kwds \<lparr>args = [PyStr ''M1'', PyStr ''fp''], kwds = []\<rparr>)) = None"
    by (simp add: empty_cache_def)
  have bound: "bind_args \<lparr>args = [PyStr ''M1'', PyStr ''fp''], kwds = []\<rparr> =
      Some (PyStr ''M1'', PyStr ''fp'', PyNone :: nat pyval)"
    by (simp add: bind_two)
  have built: "(always_constructs () :: (nat, unit, unit) constructor)
      (length (constructed (empty_cache :: (nat, unit) session_cache)))
      (PyStr ''M1'') (PyStr ''fp'') PyNone = Inr ()"
    by (simp add: always_constructs_def)
  have callers: "(0::nat) < 2" "set [1, 0 :: nat] = {0..<2}"
    by auto
  from miss bound built callers
    callers_one_after_another [of
      "empty_cache :: (nat, unit) session_cache"
      "\<lparr>args = [PyStr ''M1'', PyStr ''fp''], kwds = []\<rparr>"
      "PyStr ''M1''" "PyStr ''fp''" PyNone
      "always_constructs () :: (nat, unit, unit) constructor" "()" 2 "[1, 0]"]
  show ?thesis
    by (simp add: empty_cache_def key_two numeral_2_eq_2)
qed

text \<open>
  C3 as stated fails. Two callers of \<^verbatim>\<open>get_session_context("M1", "fp")\<close> start on
  an empty cache. Both look the key up and miss before either has stored a handle; then
  each calls the constructor and stores what it got. The constructor is called twice,
  the callers return different instances, and the second store replaces the first.
\<close>

theorem overlapping_callers_construct_twice:
  "run_schedule (always_constructs () :: (nat, unit, unit) constructor)
      [0, 1, 0, 0, 1, 1]
      ([Lookup \<lparr>args = [PyStr ''M1'', PyStr ''fp''], kwds = []\<rparr>,
        Lookup \<lparr>args = [PyStr ''M1'', PyStr ''fp''], kwds = []\<rparr>],
       empty_cache) =
     ([Returned (Inr \<lparr>ident = 0, content = ()\<rparr>),
       Returned (Inr \<lparr>ident = 1, content = ()\<rparr>)],
      \<lparr>cache = [(HashedSeq [Item (PyStr ''M1''), Item (PyStr ''fp'')],
                 \<lparr>ident = 1, content = ()\<rparr>)],
       constructed = [(PyStr ''M1'', PyStr ''fp'', PyNone),
                      (PyStr ''M1'', PyStr ''fp'', PyNone)]\<rparr>)"
  by (simp add: schedule_eval)

end
